theory Spec2Isabelle
  imports Complex_Main "HOL-Library.Sublist"
begin

section \<open>JavaScript numbers as the listing pages use them\<close>

text \<open>
  The two listing pages (\<^verbatim>\<open>pastPaperPage\<close> and \<^verbatim>\<open>forum\<close>) read the page number with
  \<^verbatim>\<open>parseInt(params.page || '1', 10)\<close>, which yields an integer or \<^verbatim>\<open>NaN\<close>. A number
  is therefore either \<open>NaN\<close> or a value; every comparison with \<open>NaN\<close> is false, the strict
  inequality \<^verbatim>\<open>!==\<close> with \<open>NaN\<close> is true, and arithmetic propagates \<open>NaN\<close>.
  (The infinite result of \<^verbatim>\<open>parseInt\<close> on a digit string too long for a double is not
  represented.)
\<close>

datatype 'a number = NaN | Num 'a

fun isNaN :: "'a number \<Rightarrow> bool" where
  "isNaN NaN = True"
| "isNaN (Num _) = False"

fun js_lt :: "('a::linorder) number \<Rightarrow> 'a number \<Rightarrow> bool" where
  "js_lt (Num a) (Num b) = (a < b)"
| "js_lt _ _ = False"

fun js_gt :: "('a::linorder) number \<Rightarrow> 'a number \<Rightarrow> bool" where
  "js_gt (Num a) (Num b) = (a > b)"
| "js_gt _ _ = False"

fun js_strict_neq :: "'a number \<Rightarrow> 'a number \<Rightarrow> bool" where
  "js_strict_neq (Num a) (Num b) = (a \<noteq> b)"
| "js_strict_neq _ _ = True"

fun js_minus :: "int number \<Rightarrow> int number \<Rightarrow> int number" where
  "js_minus (Num a) (Num b) = Num (a - b)"
| "js_minus _ _ = NaN"

fun js_plus :: "int number \<Rightarrow> int number \<Rightarrow> int number" where
  "js_plus (Num a) (Num b) = Num (a + b)"
| "js_plus _ _ = NaN"

fun js_times :: "int number \<Rightarrow> int number \<Rightarrow> int number" where
  "js_times (Num a) (Num b) = Num (a * b)"
| "js_times _ _ = NaN"

section \<open>Page validation\<close>

text \<open>
  \<^verbatim>\<open>
  function validatePage(page: number, totalPages: number): number {
      if (isNaN(page) || page < 1) { return 1; }
      if (page > totalPages && totalPages > 0) { return totalPages; }
      return page;
  }
  \<close>
  The function is the same in both listing pages.
\<close>

definition validatePage :: "int number \<Rightarrow> int number \<Rightarrow> int number" where
  "validatePage page totalPages =
     (if isNaN page \<or> js_lt page (Num 1) then Num 1
      else if js_gt page totalPages \<and> js_gt totalPages (Num 0) then totalPages
      else page)"

section \<open>Strings, joining and URI encoding\<close>

text \<open>
  Strings are byte strings (the UTF-8 encoding of the JavaScript string), so that
  \<^verbatim>\<open>encodeURIComponent\<close> is a map over the bytes: the unreserved characters
  \<^verbatim>\<open>A-Z a-z 0-9 - _ . ! ~ * ' ( )\<close> stay, every other byte becomes \<^verbatim>\<open>%XX\<close> in upper-case
  hexadecimal. \<^verbatim>\<open>`${n}`\<close> prints an integer in decimal and NaN as \<^verbatim>\<open>NaN\<close>. (JavaScript
  switches to exponent notation from \<open>10^21\<close> on; the page number printed in a
  redirect is 1 or \<open>totalPages\<close>, which is bounded by the length of an array.)
  \<open>hexDigit\<close> is only applied to numbers below 16.
\<close>

definition hexDigit :: "nat \<Rightarrow> char" where
  "hexDigit n = ''0123456789ABCDEF'' ! n"

fun decimal :: "nat \<Rightarrow> string" where
  "decimal n = (if 10 \<le> n then decimal (n div 10) @ [hexDigit (n mod 10)] else [hexDigit n])"

fun numberToString :: "int number \<Rightarrow> string" where
  "numberToString NaN = ''NaN''"
| "numberToString (Num i) = (if 0 \<le> i then decimal (nat i) else CHR ''-'' # decimal (nat (- i)))"

fun join :: "string \<Rightarrow> string list \<Rightarrow> string" where
  "join sep [] = []"
| "join sep [x] = x"
| "join sep (x # y # ys) = x @ sep @ join sep (y # ys)"

definition uriUnreserved :: "char \<Rightarrow> bool" where
  "uriUnreserved c =
     (c \<in> set ''ABCDEFGHIJKLMNOPQRSTUVWXYZabcdefghijklmnopqrstuvwxyz0123456789-_.!~*()''
      \<or> c = CHR 0x27)"

definition encodeByte :: "char \<Rightarrow> string" where
  "encodeByte c =
     (if uriUnreserved c then [c]
      else [CHR ''%'', hexDigit ((of_char c :: nat) div 16), hexDigit ((of_char c :: nat) mod 16)])"

definition encodeURIComponent :: "string \<Rightarrow> string" where
  "encodeURIComponent s = concat (map encodeByte s)"

section \<open>Items and tags\<close>

text \<open>
  \<^verbatim>\<open>type PastPaperWithTags = PastPaper & { tags: Tag[] }\<close> and
  \<^verbatim>\<open>type ForumPostWithDetails = ForumPost & { author; tags: Tag[]; comments; votes }\<close>.
  Only the fields that the listing code itself reads or that identify a record are kept
  (the URLs, timestamps, vote counts, author and comments are read by the rendering
  components and by the search library only).
\<close>

record tag =
  tag_id :: string
  name :: string
  aliases :: "string list"

record pastPaper =
  paper_id :: string
  title :: string
  paper_tags :: "tag list"

record forumPost =
  post_id :: string
  post_title :: string
  description :: string
  post_tags :: "tag list"

section \<open>The tag filter of the development-mode branch\<close>

text \<open>
  \<^verbatim>\<open>
  const filteredPastPapers = mockPastPapers.filter(paper => {
      if (tags.length === 0) return true;
      return tags.some(tag => paper.tags.some(paperTag => paperTag.name === tag));
  });
  \<close>
  and the same callback over \<^verbatim>\<open>mockForumPosts\<close> with \<^verbatim>\<open>post.tags\<close>. In the database branch
  the tag restriction is part of the \<^verbatim>\<open>findMany\<close> query and is not code of the page. The
  filtered list is a parameter here; the development branch applies the filter to the
  mock lists below.
\<close>

definition matchesTags :: "string list \<Rightarrow> tag list \<Rightarrow> bool" where
  "matchesTags tags itemTags =
     (if length tags = 0 then True
      else list_ex (\<lambda>tag. list_ex (\<lambda>paperTag. name paperTag = tag) itemTags) tags)"

definition filteredPastPapers_dev :: "string list \<Rightarrow> pastPaper list \<Rightarrow> pastPaper list" where
  "filteredPastPapers_dev tags papers = filter (\<lambda>paper. matchesTags tags (paper_tags paper)) papers"

definition filteredForumPosts_dev :: "string list \<Rightarrow> forumPost list \<Rightarrow> forumPost list" where
  "filteredForumPosts_dev tags posts = filter (\<lambda>post. matchesTags tags (post_tags post)) posts"

definition mockTag :: "string \<Rightarrow> string \<Rightarrow> tag" where
  "mockTag i n = \<lparr>tag_id = i, name = n, aliases = []\<rparr>"

definition mockPaper :: "string \<Rightarrow> string \<Rightarrow> tag list \<Rightarrow> pastPaper" where
  "mockPaper i t ts = \<lparr>paper_id = i, title = t, paper_tags = ts\<rparr>"

definition mockPastPapers :: "pastPaper list" where
  "mockPastPapers =
    [mockPaper ''1'' ''Data Structures and Algorithms - CAT 1 2023''
       [mockTag ''1'' ''CAT 1'', mockTag ''2'' ''A1'', mockTag ''3'' ''DSA''],
     mockPaper ''2'' ''Computer Networks - CAT 2 2023''
       [mockTag ''4'' ''CAT 2'', mockTag ''5'' ''B1'', mockTag ''6'' ''CN''],
     mockPaper ''3'' ''Database Management Systems - FAT 2023''
       [mockTag ''7'' ''FAT'', mockTag ''8'' ''C2'', mockTag ''9'' ''DBMS''],
     mockPaper ''4'' ''Operating Systems - CAT 1 2022''
       [mockTag ''10'' ''CAT 1'', mockTag ''11'' ''D2'', mockTag ''12'' ''OS''],
     mockPaper ''5'' ''Machine Learning - CAT 2 2022''
       [mockTag ''13'' ''CAT 2'', mockTag ''14'' ''E1'', mockTag ''15'' ''ML''],
     mockPaper ''6'' ''Software Engineering - FAT 2022''
       [mockTag ''16'' ''FAT'', mockTag ''17'' ''F1'', mockTag ''18'' ''SE''],
     mockPaper ''7'' ''Artificial Intelligence - CAT 1 2024''
       [mockTag ''19'' ''CAT 1'', mockTag ''20'' ''G2'', mockTag ''21'' ''AI''],
     mockPaper ''8'' ''Web Development - CAT 2 2024''
       [mockTag ''22'' ''CAT 2'', mockTag ''23'' ''A2'', mockTag ''24'' ''WD''],
     mockPaper ''9'' ''Computer Graphics - FAT 2024''
       [mockTag ''25'' ''FAT'', mockTag ''26'' ''B2'', mockTag ''27'' ''CG''],
     mockPaper ''10'' ''Cybersecurity - CAT 1 2023''
       [mockTag ''28'' ''CAT 1'', mockTag ''29'' ''C1'', mockTag ''30'' ''CS''],
     mockPaper ''11'' ''Mobile App Development - CAT 2 2023''
       [mockTag ''31'' ''CAT 2'', mockTag ''32'' ''D1'', mockTag ''33'' ''MAD''],
     mockPaper ''12'' ''Cloud Computing - FAT 2023''
       [mockTag ''34'' ''FAT'', mockTag ''35'' ''E2'', mockTag ''36'' ''CC''],
     mockPaper ''13'' ''Blockchain Technology - CAT 1 2024''
       [mockTag ''37'' ''CAT 1'', mockTag ''38'' ''F2'', mockTag ''39'' ''BT''],
     mockPaper ''14'' ''Data Science - CAT 2 2024''
       [mockTag ''40'' ''CAT 2'', mockTag ''41'' ''G1'', mockTag ''42'' ''DS''],
     mockPaper ''15'' ''Internet of Things - FAT 2024''
       [mockTag ''43'' ''FAT'', mockTag ''44'' ''A1'', mockTag ''45'' ''IoT'']]"

definition mockForumPosts :: "forumPost list" where
  "mockForumPosts =
    [\<lparr>post_id = ''1'', post_title = ''Sample Forum Post 1'',
      description = ''This is a sample forum post for development mode.'',
      post_tags = [mockTag ''1'' ''CAT 1'', mockTag ''2'' ''A1'']\<rparr>,
     \<lparr>post_id = ''2'', post_title = ''Sample Forum Post 2'',
      description = ''Another sample forum post for testing.'',
      post_tags = [mockTag ''3'' ''FAT'', mockTag ''4'' ''B2'']\<rparr>]"

section \<open>Fuzzy search\<close>

text \<open>
  The search itself is done by the third-party library Fuse.js, which is a parameter
  of the model: a function from the options, the data set and the logical query to the
  list of results, each with the matched item, its index in the data set and its score.
  \<^verbatim>\<open>score\<close> is an optional number (\<open>None\<close> is \<^verbatim>\<open>undefined\<close>).
\<close>

record fuse_key =
  key_name :: string
  weight :: real

record fuse_options =
  includeScore :: bool
  fuse_keys :: "fuse_key list"
  threshold :: real
  ignoreLocation :: bool
  minMatchCharLength :: nat
  findAllMatches :: bool
  useExtendedSearch :: bool

datatype fuse_query = Or "(string \<times> string) list"

record 'a fuseResult =
  item :: 'a
  refIndex :: nat
  score :: "real number option"

type_synonym 'a fuse = "fuse_options \<Rightarrow> 'a list \<Rightarrow> fuse_query \<Rightarrow> 'a fuseResult list"

text \<open>
  \<^verbatim>\<open>fuseResult.score || 1\<close>: the falsy scores \<^verbatim>\<open>undefined\<close>, \<^verbatim>\<open>NaN\<close> and \<^verbatim>\<open>0\<close> become 1.
\<close>

fun score_or_1 :: "real number option \<Rightarrow> real" where
  "score_or_1 None = 1"
| "score_or_1 (Some NaN) = 1"
| "score_or_1 (Some (Num x)) = (if x = 0 then 1 else x)"

text \<open>
  Past papers:
  \<^verbatim>\<open>
  const SCORE_THRESHOLD = 0.6;
  function performSearch(query: string, dataSet: PastPaperWithTags[]) {
      const options = { includeScore: true,
          keys: [{ name: 'title', weight: 1 }, { name: 'tags.name', weight: 2 }],
          threshold: 0.4, ignoreLocation: true, minMatchCharLength: 2,
          findAllMatches: true, useExtendedSearch: true };
      const fuse = new Fuse(dataSet, options);
      const searchResults = fuse.search({ $or: [
          { title: query }, { 'tags.name': query }, { title: `'${query}` } ] });
      return searchResults
          .filter((fuseResult) => (fuseResult.score || 1) < SCORE_THRESHOLD)
          .map((fuseResult) => fuseResult.item);
  }
  \<close>
\<close>

definition SCORE_THRESHOLD_papers :: real where
  "SCORE_THRESHOLD_papers = 0.6"

definition options_papers :: fuse_options where
  "options_papers =
     \<lparr>includeScore = True,
      fuse_keys = [\<lparr>key_name = ''title'', weight = 1\<rparr>, \<lparr>key_name = ''tags.name'', weight = 2\<rparr>],
      threshold = 0.4, ignoreLocation = True, minMatchCharLength = 2,
      findAllMatches = True, useExtendedSearch = True\<rparr>"

definition searchResults_papers :: "pastPaper fuse \<Rightarrow> string \<Rightarrow> pastPaper list \<Rightarrow> pastPaper fuseResult list" where
  "searchResults_papers fuse query dataSet =
     fuse options_papers dataSet
       (Or [(''title'', query), (''tags.name'', query), (''title'', CHR 0x27 # query)])"

definition acceptedResults_papers :: "pastPaper fuse \<Rightarrow> string \<Rightarrow> pastPaper list \<Rightarrow> pastPaper fuseResult list" where
  "acceptedResults_papers fuse query dataSet =
     filter (\<lambda>fuseResult. score_or_1 (score fuseResult) < SCORE_THRESHOLD_papers)
       (searchResults_papers fuse query dataSet)"

definition performSearch_papers :: "pastPaper fuse \<Rightarrow> string \<Rightarrow> pastPaper list \<Rightarrow> pastPaper list" where
  "performSearch_papers fuse query dataSet = map item (acceptedResults_papers fuse query dataSet)"

text \<open>
  Forum: the same function with \<^verbatim>\<open>SCORE_THRESHOLD = 0.8\<close>, six weighted keys, the
  per-field threshold 0.7 and one query per key.
\<close>

definition SCORE_THRESHOLD_forum :: real where
  "SCORE_THRESHOLD_forum = 0.8"

definition options_forum :: fuse_options where
  "options_forum =
     \<lparr>includeScore = True,
      fuse_keys = [\<lparr>key_name = ''title'', weight = 2\<rparr>, \<lparr>key_name = ''author.name'', weight = 1\<rparr>,
                   \<lparr>key_name = ''tags.name'', weight = 1\<rparr>, \<lparr>key_name = ''description'', weight = 1.5\<rparr>,
                   \<lparr>key_name = ''comments.content'', weight = 1\<rparr>,
                   \<lparr>key_name = ''comments.author.name'', weight = 0.5\<rparr>],
      threshold = 0.7, ignoreLocation = True, minMatchCharLength = 2,
      findAllMatches = True, useExtendedSearch = True\<rparr>"

definition searchResults_forum :: "forumPost fuse \<Rightarrow> string \<Rightarrow> forumPost list \<Rightarrow> forumPost fuseResult list" where
  "searchResults_forum fuse query dataSet =
     fuse options_forum dataSet
       (Or [(''title'', query), (''author.name'', query), (''tags.name'', query),
            (''description'', query), (''comments.content'', query),
            (''comments.author.name'', query), (''title'', CHR 0x27 # query)])"

definition acceptedResults_forum :: "forumPost fuse \<Rightarrow> string \<Rightarrow> forumPost list \<Rightarrow> forumPost fuseResult list" where
  "acceptedResults_forum fuse query dataSet =
     filter (\<lambda>fuseResult. score_or_1 (score fuseResult) < SCORE_THRESHOLD_forum)
       (searchResults_forum fuse query dataSet)"

definition performSearch_forum :: "forumPost fuse \<Rightarrow> string \<Rightarrow> forumPost list \<Rightarrow> forumPost list" where
  "performSearch_forum fuse query dataSet = map item (acceptedResults_forum fuse query dataSet)"

text \<open>
  A stand-in for the library, for concrete evaluations only: every record of the data set
  is reported, in order, with the score that \<open>f\<close> gives it.
\<close>

definition scored_fuse :: "('a \<Rightarrow> real number option) \<Rightarrow> 'a fuse" where
  "scored_fuse f opts dataSet q =
     map (\<lambda>(i, x). \<lparr>item = x, refIndex = i, score = f x\<rparr>) (enumerate 0 dataSet)"

text \<open>
  How Fuse.js arrives at the score of a result (its \<^verbatim>\<open>computeScore\<close>): every match of
  the result contributes one factor,
  \<^verbatim>\<open>
  let totalScore = 1
  result.matches.forEach(({ key, norm, score }) => {
      const weight = key ? key.weight : null
      totalScore *= Math.pow(
          score === 0 && weight ? Number.EPSILON : score,
          (weight || 1) * (ignoreFieldNorm ? 1 : norm))
  })
  result.score = totalScore
  \<close>
  where \<^verbatim>\<open>key.weight\<close> is the weight of the key divided by the sum of the weights,
  \<^verbatim>\<open>norm\<close> the field-length norm and \<^verbatim>\<open>score\<close> the score of the match on that field (0
  for a perfect match). The pages search with keys and leave \<^verbatim>\<open>ignoreFieldNorm\<close> at its
  default \<^verbatim>\<open>false\<close>. The numbers are taken as reals.
\<close>

record fuse_match =
  match_weight :: real
  match_norm :: real
  match_score :: real

definition Number_EPSILON :: real where
  "Number_EPSILON = 1 / 2 ^ 52"

definition Math_pow :: "real \<Rightarrow> real \<Rightarrow> real" where
  "Math_pow x y = (if y = 0 then 1 else x powr y)"

definition computeScore :: "fuse_match list \<Rightarrow> real" where
  "computeScore matches =
     foldl (\<lambda>totalScore m.
         totalScore * Math_pow
           (if match_score m = 0 \<and> match_weight m \<noteq> 0 then Number_EPSILON else match_score m)
           ((if match_weight m \<noteq> 0 then match_weight m else 1) * match_norm m))
       1 matches"

text \<open>Two score assignments over the mock records, again for concrete evaluations.\<close>

definition sampleScore_papers :: "pastPaper \<Rightarrow> real number option" where
  "sampleScore_papers p =
     (if paper_id p = ''1'' then Some (Num 0.2)
      else if paper_id p = ''2'' then Some (Num 0.6)
      else if paper_id p = ''3'' then Some (Num 0)
      else None)"

definition sampleScore_forum :: "forumPost \<Rightarrow> real number option" where
  "sampleScore_forum p =
     (if post_id p = ''1'' then Some (Num 0.7) else Some (Num 0))"

section \<open>Slicing\<close>

text \<open>
  \<^verbatim>\<open>Array.prototype.slice(start, end)\<close>: an argument that is NaN counts as 0, a negative
  argument counts from the end, both are clipped to the length, and an empty or inverted
  range gives the empty array. It never throws.
\<close>

fun toIntegerOrInfinity :: "int number \<Rightarrow> int" where
  "toIntegerOrInfinity NaN = 0"
| "toIntegerOrInfinity (Num i) = i"

definition slice :: "'a list \<Rightarrow> int number \<Rightarrow> int number \<Rightarrow> 'a list" where
  "slice xs start fin =
     (let len = int (length xs);
          relativeStart = toIntegerOrInfinity start;
          k = (if relativeStart < 0 then max (len + relativeStart) 0 else min relativeStart len);
          relativeEnd = toIntegerOrInfinity fin;
          final = (if relativeEnd < 0 then max (len + relativeEnd) 0 else min relativeEnd len)
      in take (nat (final - k)) (drop (nat k) xs))"

section \<open>The listing pages\<close>

text \<open>
  \<^verbatim>\<open>Math.ceil(totalCount / pageSize)\<close>. The page size is the constant 9 (past papers) or 5
  (forum); a page size of 0, where JavaScript divides by zero, does not occur.
\<close>

definition Math_ceil_div :: "nat \<Rightarrow> nat \<Rightarrow> int number" where
  "Math_ceil_div totalCount pageSize = Num \<lceil>real totalCount / real pageSize\<rceil>"

text \<open>
  The database branch of \<^verbatim>\<open>pastPaperPage\<close> (and of \<^verbatim>\<open>forum\<close>, which differs in the page
  size, the base path and its \<^verbatim>\<open>performSearch\<close>), from the result of \<^verbatim>\<open>findMany\<close> on:
  \<^verbatim>\<open>
  if (search) { filteredPastPapers = performSearch(search, filteredPastPapers); }
  const totalCount = filteredPastPapers.length;
  const totalPages = Math.ceil(totalCount / pageSize);
  const validatedPage = validatePage(page, totalPages);
  const startIndex = (validatedPage - 1) * pageSize;
  const endIndex = startIndex + pageSize;
  const paginatedPastPapers = filteredPastPapers.slice(startIndex, endIndex);
  if (validatedPage !== page) {
      const searchQuery = search ? `&search=${encodeURIComponent(search)}` : '';
      const tagsQuery = tags.length > 0 ? `&tags=${encodeURIComponent(tags.join(','))}` : '';
      redirect(`/past_papers?page=${validatedPage}${searchQuery}${tagsQuery}`);
  }
  return ( ... paginatedPastPapers ... validatedPage ... totalPages ... );
  \<close>
  The request holds the three values parsed from the search parameters; \<open>fetched\<close> is the
  list that \<^verbatim>\<open>findMany\<close> returned (already restricted to the requested tags and ordered by
  creation time). \<^verbatim>\<open>redirect\<close> throws, so nothing is rendered after it. The local variables
  are kept in a record, in the order in which the code assigns them, so that what has been
  computed when the redirect is decided can be stated (\<open>pastPaperPage_locals\<close> and
  \<open>forum_locals\<close> are the local variables of the database branch).
\<close>

record request =
  search :: string
  page :: "int number"
  tags :: "string list"

record 'a locals =
  filteredItems :: "'a list"
  totalCount :: nat
  totalPages :: "int number"
  validatedPage :: "int number"
  startIndex :: "int number"
  endIndex :: "int number"
  paginatedItems :: "'a list"

datatype 'a outcome = Render "'a list" "int number" "int number" | Redirect string

definition listing_locals ::
  "nat \<Rightarrow> (string \<Rightarrow> 'a list \<Rightarrow> 'a list) \<Rightarrow> request \<Rightarrow> 'a list \<Rightarrow> 'a locals" where
  "listing_locals pageSize performSearch req fetched =
     (let filtered = (if search req \<noteq> [] then performSearch (search req) fetched else fetched);
          count = length filtered;
          pages = Math_ceil_div count pageSize;
          validated = validatePage (page req) pages;
          start = js_times (js_minus validated (Num 1)) (Num (int pageSize));
          fin = js_plus start (Num (int pageSize))
      in \<lparr>filteredItems = filtered, totalCount = count, totalPages = pages,
          validatedPage = validated, startIndex = start, endIndex = fin,
          paginatedItems = slice filtered start fin\<rparr>)"

definition redirectUrl :: "string \<Rightarrow> int number \<Rightarrow> request \<Rightarrow> string" where
  "redirectUrl basePath validated req =
     (let searchQuery = (if search req \<noteq> [] then ''&search='' @ encodeURIComponent (search req) else []);
          tagsQuery = (if length (tags req) > 0
                       then ''&tags='' @ encodeURIComponent (join '','' (tags req)) else [])
      in basePath @ ''?page='' @ numberToString validated @ searchQuery @ tagsQuery)"

definition listing_page ::
  "string \<Rightarrow> nat \<Rightarrow> (string \<Rightarrow> 'a list \<Rightarrow> 'a list) \<Rightarrow> request \<Rightarrow> 'a list \<Rightarrow> 'a outcome" where
  "listing_page basePath pageSize performSearch req fetched =
     (let l = listing_locals pageSize performSearch req fetched
      in if js_strict_neq (validatedPage l) (page req)
         then Redirect (redirectUrl basePath (validatedPage l) req)
         else Render (paginatedItems l) (validatedPage l) (totalPages l))"

definition pastPaperPage_locals :: "pastPaper fuse \<Rightarrow> request \<Rightarrow> pastPaper list \<Rightarrow> pastPaper locals" where
  "pastPaperPage_locals fuse = listing_locals 9 (performSearch_papers fuse)"


definition forum_locals :: "forumPost fuse \<Rightarrow> request \<Rightarrow> forumPost list \<Rightarrow> forumPost locals" where
  "forum_locals fuse = listing_locals 5 (performSearch_forum fuse)"

text \<open>
  The development branch, taken when \<^verbatim>\<open>process.env.DATABASE_URL\<close> is not set. It works on
  the mock data, never searches and never redirects. In \<^verbatim>\<open>pastPaperPage\<close>:
  \<^verbatim>\<open>
  const filteredPastPapers = mockPastPapers.filter(...);
  const totalPages = Math.ceil(filteredPastPapers.length / pageSize);
  const paginatedPapers = filteredPastPapers.slice((page - 1) * pageSize, page * pageSize);
  const validatedPage = validatePage(page, totalPages);
  return ( ... paginatedPapers ... validatedPage ... totalPages ... );
  \<close>
  (the slice uses the requested page, not the validated one), and in \<^verbatim>\<open>forum\<close>:
  \<^verbatim>\<open>
  const filteredForumPosts = mockForumPosts.filter(...);
  const totalCount = filteredForumPosts.length;
  const totalPages = Math.ceil(totalCount / pageSize);
  const validatedPage = validatePage(page, totalPages);
  const startIndex = (validatedPage - 1) * pageSize;
  const endIndex = startIndex + pageSize;
  const paginatedPosts = filteredForumPosts.slice(startIndex, endIndex);
  return ( ... paginatedPosts ... validatedPage ... totalPages ... );
  \<close>
\<close>

definition pastPaperPage_dev :: "request \<Rightarrow> pastPaper outcome" where
  "pastPaperPage_dev req =
     (let filteredPastPapers = filteredPastPapers_dev (tags req) mockPastPapers;
          pages = Math_ceil_div (length filteredPastPapers) 9;
          paginatedPapers = slice filteredPastPapers
            (js_times (js_minus (page req) (Num 1)) (Num 9)) (js_times (page req) (Num 9));
          validated = validatePage (page req) pages
      in Render paginatedPapers validated pages)"

definition forum_dev :: "request \<Rightarrow> forumPost outcome" where
  "forum_dev req =
     (let filteredForumPosts = filteredForumPosts_dev (tags req) mockForumPosts;
          count = length filteredForumPosts;
          pages = Math_ceil_div count 5;
          validated = validatePage (page req) pages;
          start = js_times (js_minus validated (Num 1)) (Num 5);
          fin = js_plus start (Num 5);
          paginatedPosts = slice filteredForumPosts start fin
      in Render paginatedPosts validated pages)"

text \<open>
  The two page functions: \<^verbatim>\<open>if (!process.env.DATABASE_URL) { ... development branch ... }\<close>
  and the database branch after it. The first argument says whether the environment variable
  is set (to a non-empty string); \<open>fetched\<close> is what \<^verbatim>\<open>findMany\<close> returns in the database
  branch and is not looked at in the development branch.
\<close>

definition pastPaperPage ::
  "bool \<Rightarrow> pastPaper fuse \<Rightarrow> request \<Rightarrow> pastPaper list \<Rightarrow> pastPaper outcome" where
  "pastPaperPage DATABASE_URL fuse req fetched =
     (if \<not> DATABASE_URL then pastPaperPage_dev req
      else listing_page ''/past_papers'' 9 (performSearch_papers fuse) req fetched)"

definition forum ::
  "bool \<Rightarrow> forumPost fuse \<Rightarrow> request \<Rightarrow> forumPost list \<Rightarrow> forumPost outcome" where
  "forum DATABASE_URL fuse req fetched =
     (if \<not> DATABASE_URL then forum_dev req
      else listing_page ''/forum'' 5 (performSearch_forum fuse) req fetched)"

fun renderedItems :: "'a outcome \<Rightarrow> 'a list" where
  "renderedItems (Render items _ _) = items"
| "renderedItems (Redirect _) = []"

fun isRedirect :: "'a outcome \<Rightarrow> bool" where
  "isRedirect (Redirect _) = True"
| "isRedirect (Render _ _ _) = False"


section \<open>Properties of page validation\<close>

lemma validatePage_NaN: "validatePage NaN t = Num 1"
  by (simp add: validatePage_def)

lemma validatePage_below: "p < 1 \<Longrightarrow> validatePage (Num p) t = Num 1"
  by (simp add: validatePage_def)

lemma validatePage_above:
  "1 \<le> p \<Longrightarrow> t < p \<Longrightarrow> 0 < t \<Longrightarrow> validatePage (Num p) (Num t) = Num t"
  by (simp add: validatePage_def)

lemma validatePage_keep:
  "1 \<le> p \<Longrightarrow> p \<le> t \<or> t \<le> 0 \<Longrightarrow> validatePage (Num p) (Num t) = Num p"
  by (auto simp: validatePage_def)

lemma validatePage_keep_NaN_total: "1 \<le> p \<Longrightarrow> validatePage (Num p) NaN = Num p"
  by (simp add: validatePage_def)

lemma validatePage_not_NaN: "validatePage p (Num t) \<noteq> NaN"
  by (cases p) (auto simp: validatePage_def)

lemma validatePage_value:
  "\<exists>v. validatePage p (Num t) = Num v \<and> 1 \<le> v \<and> (0 < t \<longrightarrow> v \<le> t)"
  by (cases p) (auto simp: validatePage_def)

text \<open>
  Claim C1, as stated: for every \<open>totalPages \<ge> 0\<close> and every integer or NaN page \<open>p\<close>,
  \<open>validatePage p totalPages\<close> lies in \<open>[1, max totalPages 1]\<close>. This fails when
  \<open>totalPages = 0\<close>: the clamp to \<open>totalPages\<close> is guarded by \<open>totalPages > 0\<close>, so page 5
  of an empty listing is returned unchanged, outside \<open>[1, 1]\<close>.
\<close>

theorem C1_validatePage_range_counterexample:
  "validatePage (Num 5) (Num 0) = Num 5 \<and> \<not> (5 \<le> max (0::int) 1)"
  by (simp add: validatePage_def)

text \<open>
  Claim C1, amended: for every \<open>totalPages \<ge> 1\<close> and every integer or NaN page \<open>p\<close>,
  \<open>validatePage p totalPages\<close> is an integer in \<open>[1, totalPages]\<close>; for \<open>totalPages = 0\<close> it
  is an integer that is at least 1 (the page itself when \<open>p \<ge> 1\<close>, else 1); and for every
  \<open>totalPages \<ge> 0\<close> it equals \<open>p\<close> whenever \<open>1 \<le> p \<le> totalPages\<close>.
\<close>

theorem C1_validatePage_range:
  "(1 \<le> t \<longrightarrow> (\<exists>v. validatePage p (Num t) = Num v \<and> 1 \<le> v \<and> v \<le> t))
   \<and> (\<exists>v. validatePage p (Num 0) = Num v \<and> 1 \<le> v
        \<and> (\<forall>q. p = Num q \<and> 1 \<le> q \<longrightarrow> v = q) \<and> (p = NaN \<or> js_lt p (Num 1) \<longrightarrow> v = 1))
   \<and> (0 \<le> t \<and> 1 \<le> q \<and> q \<le> t \<longrightarrow> validatePage (Num q) (Num t) = Num q)"
  by (cases p) (auto simp: validatePage_def)

theorem C1_validatePage_range_witness:
  "validatePage (Num 99) (Num 2) = Num 2 \<and> validatePage NaN (Num 2) = Num 1
   \<and> validatePage (Num 7) (Num 0) = Num 7 \<and> validatePage (Num (- 3)) (Num 0) = Num 1
   \<and> validatePage (Num 2) (Num 2) = Num 2"
  using C1_validatePage_range [of 2 "Num 99" 2] C1_validatePage_range [of 2 NaN 2]
    C1_validatePage_range [of 0 "Num 7" 2] C1_validatePage_range [of 0 "Num (- 3)" 2]
  by (simp add: validatePage_def)

text \<open>
  Claim C2: \<open>validatePage requestedPage totalPages\<close> returns 1 when the requested page is
  NaN or below 1; returns \<open>totalPages\<close> when the requested page exceeds \<open>totalPages\<close> and
  \<open>totalPages > 0\<close>; and otherwise returns the requested page unchanged. It is total: for
  every integer or NaN page and every integer \<open>totalPages\<close> the result is an integer, never
  NaN and never a failure.
\<close>

theorem C2_validatePage_cases:
  "validatePage NaN t = Num 1
   \<and> (q < 1 \<longrightarrow> validatePage (Num q) t = Num 1)
   \<and> (1 \<le> q \<and> n < q \<and> 0 < n \<longrightarrow> validatePage (Num q) (Num n) = Num n)
   \<and> (1 \<le> q \<and> \<not> (n < q \<and> 0 < n) \<longrightarrow> validatePage (Num q) (Num n) = Num q)
   \<and> (1 \<le> q \<longrightarrow> validatePage (Num q) NaN = Num q)
   \<and> (\<exists>v. validatePage p (Num n) = Num v)"
  by (cases p) (auto simp: validatePage_def)

theorem C2_validatePage_cases_witness:
  "validatePage NaN (Num 3) = Num 1 \<and> validatePage (Num 0) (Num 3) = Num 1
   \<and> validatePage (Num 9) (Num 3) = Num 3 \<and> validatePage (Num 2) (Num 3) = Num 2
   \<and> validatePage (Num 9) (Num 0) = Num 9 \<and> validatePage (Num 4) NaN = Num 4"
  using C2_validatePage_cases [of "Num 3" 0 3 NaN] C2_validatePage_cases [of "Num 3" 9 3 NaN]
    C2_validatePage_cases [of "Num 3" 2 3 NaN] C2_validatePage_cases [of "Num 0" 9 0 NaN]
    C2_validatePage_cases [of NaN 4 0 NaN]
  by simp

section \<open>Properties of the listing pages\<close>


lemma Math_ceil_div_zero: "Math_ceil_div 0 pageSize = Num 0"
  by (simp add: Math_ceil_div_def)

lemma Math_ceil_div_pos: "0 < pageSize \<Longrightarrow> 0 < n \<Longrightarrow> \<exists>t. Math_ceil_div n pageSize = Num t \<and> 0 < t"
  by (simp add: Math_ceil_div_def)





lemma js_strict_neq_iff: "v \<noteq> NaN \<Longrightarrow> js_strict_neq v p \<longleftrightarrow> v \<noteq> p"
  by (cases v; cases p) auto

lemma Math_ceil_div_Num: "\<exists>t. Math_ceil_div n pageSize = Num t"
  by (simp add: Math_ceil_div_def)

lemma validatedPage_not_NaN: "validatedPage (listing_locals ps perf req fetched) \<noteq> NaN"
proof -
  obtain t where "Math_ceil_div (length (if search req \<noteq> [] then perf (search req) fetched else fetched)) ps = Num t"
    using Math_ceil_div_Num by blast
  then show ?thesis
    by (simp add: listing_locals_def Let_def validatePage_not_NaN)
qed

lemma listing_page_redirect:
  assumes "validatedPage (listing_locals ps perf req fetched) \<noteq> page req"
  shows "listing_page base ps perf req fetched =
           Redirect (redirectUrl base (validatedPage (listing_locals ps perf req fetched)) req)"
  using assms validatedPage_not_NaN [of ps perf req fetched]
  by (simp add: listing_page_def Let_def js_strict_neq_iff)

lemma listing_page_render:
  assumes "validatedPage (listing_locals ps perf req fetched) = page req"
  shows "listing_page base ps perf req fetched =
           Render (paginatedItems (listing_locals ps perf req fetched)) (page req)
             (totalPages (listing_locals ps perf req fetched))"
  using assms validatedPage_not_NaN [of ps perf req fetched]
  by (simp add: listing_page_def Let_def js_strict_neq_iff)

lemma redirectUrl_unfold:
  "redirectUrl base v req =
     base @ ''?page='' @ numberToString v
       @ (if search req = [] then [] else ''&search='' @ encodeURIComponent (search req))
       @ (if tags req = [] then [] else ''&tags='' @ encodeURIComponent (join '','' (tags req)))"
  by (simp add: redirectUrl_def Let_def)

lemma listing_empty:
  assumes "filteredItems (listing_locals ps perf req fetched) = []"
  shows "totalPages (listing_locals ps perf req fetched) = Num 0"
    and "validatedPage (listing_locals ps perf req fetched) = validatePage (page req) (Num 0)"
    and "paginatedItems (listing_locals ps perf req fetched) = []"
  using assms by (simp_all add: listing_locals_def Let_def Math_ceil_div_zero slice_def)

lemma listing_empty_outcome:
  assumes "filteredItems (listing_locals ps perf req fetched) = []"
  shows "totalPages (listing_locals ps perf req fetched) = Num 0
    \<and> (\<forall>p. page req = Num p \<and> 1 \<le> p \<longrightarrow>
          validatedPage (listing_locals ps perf req fetched) = Num p
          \<and> listing_page base ps perf req fetched = Render [] (Num p) (Num 0))
    \<and> (page req = NaN \<or> js_lt (page req) (Num 1) \<longrightarrow>
          validatedPage (listing_locals ps perf req fetched) = Num 1
          \<and> listing_page base ps perf req fetched = Redirect (redirectUrl base (Num 1) req))"
proof (intro conjI allI impI)
  show "totalPages (listing_locals ps perf req fetched) = Num 0"
    by (rule listing_empty(1) [OF assms])
next
  fix p assume p: "page req = Num p \<and> 1 \<le> p"
  then show v: "validatedPage (listing_locals ps perf req fetched) = Num p"
    by (simp add: listing_empty(2) [OF assms] validatePage_def)
  with p have "validatedPage (listing_locals ps perf req fetched) = page req" by simp
  from listing_page_render [OF this, of base] p
  show "listing_page base ps perf req fetched = Render [] (Num p) (Num 0)"
    by (simp add: listing_empty(1,3) [OF assms])
next
  assume p: "page req = NaN \<or> js_lt (page req) (Num 1)"
  then show v: "validatedPage (listing_locals ps perf req fetched) = Num 1"
    by (auto simp: listing_empty(2) [OF assms] validatePage_def)
  from p have "page req \<noteq> Num 1" by auto
  with v have "validatedPage (listing_locals ps perf req fetched) \<noteq> page req" by simp
  from listing_page_redirect [OF this, of base] v
  show "listing_page base ps perf req fetched = Redirect (redirectUrl base (Num 1) req)"
    by simp
qed

lemma pastPaperPage_database:
  "pastPaperPage True fuse req fetched
     = listing_page ''/past_papers'' 9 (performSearch_papers fuse) req fetched"
  by (simp add: pastPaperPage_def)

lemma pastPaperPage_development:
  "pastPaperPage False fuse req fetched = pastPaperPage_dev req"
  by (simp add: pastPaperPage_def)

lemma forum_database:
  "forum True fuse req fetched = listing_page ''/forum'' 5 (performSearch_forum fuse) req fetched"
  by (simp add: forum_def)

lemma forum_development:
  "forum False fuse req fetched = forum_dev req"
  by (simp add: forum_def)

lemma validatePage_zero:
  "1 \<le> p \<Longrightarrow> validatePage (Num p) (Num 0) = Num p"
  "pg = NaN \<or> js_lt pg (Num 1) \<Longrightarrow> validatePage pg (Num 0) = Num 1"
  by (auto simp: validatePage_def)

lemma pastPaperPage_dev_empty:
  assumes "filteredPastPapers_dev (tags req) mockPastPapers = []"
  shows "pastPaperPage_dev req = Render [] (validatePage (page req) (Num 0)) (Num 0)"
  using assms by (simp add: pastPaperPage_dev_def Let_def Math_ceil_div_zero slice_def)

lemma forum_dev_empty:
  assumes "filteredForumPosts_dev (tags req) mockForumPosts = []"
  shows "forum_dev req = Render [] (validatePage (page req) (Num 0)) (Num 0)"
  using assms by (simp add: forum_dev_def Let_def Math_ceil_div_zero slice_def)

lemma pastPaperPage_dev_render:
  "\<exists>items pages. pastPaperPage_dev req = Render items (validatePage (page req) pages) pages"
  by (simp add: pastPaperPage_dev_def Let_def)

lemma forum_dev_render:
  "\<exists>items pages. forum_dev req = Render items (validatePage (page req) pages) pages"
  by (simp add: forum_dev_def Let_def)

text \<open>
  Claim C3, as stated: whenever the result set after filtering is empty
  (\<open>totalPages = 0\<close>), the validated page is 1 and no redirect is emitted, whatever page
  was requested. Both parts fail in the database branch: on an empty listing page 5 is
  validated to 5 (the clamp is guarded by \<open>totalPages > 0\<close>), and page 0 is validated to
  1, which differs from the requested page, so the redirect to page 1 is emitted.
\<close>

theorem C3_empty_result_set_counterexample:
  "filteredItems (pastPaperPage_locals (scored_fuse (\<lambda>_. None))
       \<lparr>search = [], page = Num 5, tags = []\<rparr> []) = []
   \<and> validatedPage (pastPaperPage_locals (scored_fuse (\<lambda>_. None))
       \<lparr>search = [], page = Num 5, tags = []\<rparr> []) = Num 5
   \<and> pastPaperPage True (scored_fuse (\<lambda>_. None)) \<lparr>search = [], page = Num 5, tags = []\<rparr> []
       = Render [] (Num 5) (Num 0)
   \<and> filteredItems (pastPaperPage_locals (scored_fuse (\<lambda>_. None))
       \<lparr>search = [], page = Num 0, tags = []\<rparr> []) = []
   \<and> pastPaperPage True (scored_fuse (\<lambda>_. None)) \<lparr>search = [], page = Num 0, tags = []\<rparr> []
       = Redirect ''/past_papers?page=1''"
  by code_simp

text \<open>
  Claim C3, amended: whenever the result set after filtering is empty, \<open>totalPages\<close> is
  0. If the requested page is an integer \<open>p \<ge> 1\<close>, the validated page is \<open>p\<close> itself
  (so 1 for the default page 1), no redirect is emitted and an empty page is rendered, in
  the database branch and in the development branch. If the requested page is NaN or
  below 1, the validated page is 1; the database branch (\<^verbatim>\<open>DATABASE_URL\<close> set) then emits
  the redirect to page 1, and the development branch (\<^verbatim>\<open>DATABASE_URL\<close> not set, mock data)
  renders the empty page 1 without a redirect. This holds for the past-papers page and
  for the forum page.
\<close>

theorem C3_empty_result_set:
  "(filteredItems (pastPaperPage_locals fuse req fetched) = [] \<longrightarrow>
      totalPages (pastPaperPage_locals fuse req fetched) = Num 0
      \<and> (\<forall>p. page req = Num p \<and> 1 \<le> p \<longrightarrow>
            validatedPage (pastPaperPage_locals fuse req fetched) = Num p
            \<and> pastPaperPage True fuse req fetched = Render [] (Num p) (Num 0))
      \<and> (page req = NaN \<or> js_lt (page req) (Num 1) \<longrightarrow>
            validatedPage (pastPaperPage_locals fuse req fetched) = Num 1
            \<and> pastPaperPage True fuse req fetched
                = Redirect (redirectUrl ''/past_papers'' (Num 1) req)))
   \<and> (filteredPastPapers_dev (tags req) mockPastPapers = [] \<longrightarrow>
      (\<forall>p. page req = Num p \<and> 1 \<le> p \<longrightarrow>
            pastPaperPage False fuse req fetched = Render [] (Num p) (Num 0))
      \<and> (page req = NaN \<or> js_lt (page req) (Num 1) \<longrightarrow>
            pastPaperPage False fuse req fetched = Render [] (Num 1) (Num 0)))
   \<and> (filteredItems (forum_locals fuse' req' fetched') = [] \<longrightarrow>
      totalPages (forum_locals fuse' req' fetched') = Num 0
      \<and> (\<forall>p. page req' = Num p \<and> 1 \<le> p \<longrightarrow>
            validatedPage (forum_locals fuse' req' fetched') = Num p
            \<and> forum True fuse' req' fetched' = Render [] (Num p) (Num 0))
      \<and> (page req' = NaN \<or> js_lt (page req') (Num 1) \<longrightarrow>
            validatedPage (forum_locals fuse' req' fetched') = Num 1
            \<and> forum True fuse' req' fetched' = Redirect (redirectUrl ''/forum'' (Num 1) req')))
   \<and> (filteredForumPosts_dev (tags req') mockForumPosts = [] \<longrightarrow>
      (\<forall>p. page req' = Num p \<and> 1 \<le> p \<longrightarrow>
            forum False fuse' req' fetched' = Render [] (Num p) (Num 0))
      \<and> (page req' = NaN \<or> js_lt (page req') (Num 1) \<longrightarrow>
            forum False fuse' req' fetched' = Render [] (Num 1) (Num 0)))"
proof (intro conjI)
  show "filteredItems (pastPaperPage_locals fuse req fetched) = [] \<longrightarrow>
      totalPages (pastPaperPage_locals fuse req fetched) = Num 0
      \<and> (\<forall>p. page req = Num p \<and> 1 \<le> p \<longrightarrow>
            validatedPage (pastPaperPage_locals fuse req fetched) = Num p
            \<and> pastPaperPage True fuse req fetched = Render [] (Num p) (Num 0))
      \<and> (page req = NaN \<or> js_lt (page req) (Num 1) \<longrightarrow>
            validatedPage (pastPaperPage_locals fuse req fetched) = Num 1
            \<and> pastPaperPage True fuse req fetched
                = Redirect (redirectUrl ''/past_papers'' (Num 1) req))"
    unfolding pastPaperPage_locals_def pastPaperPage_database
    using listing_empty_outcome [of 9 "performSearch_papers fuse" req fetched "''/past_papers''"]
    by blast
next
  show "filteredPastPapers_dev (tags req) mockPastPapers = [] \<longrightarrow>
      (\<forall>p. page req = Num p \<and> 1 \<le> p \<longrightarrow>
            pastPaperPage False fuse req fetched = Render [] (Num p) (Num 0))
      \<and> (page req = NaN \<or> js_lt (page req) (Num 1) \<longrightarrow>
            pastPaperPage False fuse req fetched = Render [] (Num 1) (Num 0))"
    by (auto simp: pastPaperPage_development pastPaperPage_dev_empty validatePage_zero)
next
  show "filteredItems (forum_locals fuse' req' fetched') = [] \<longrightarrow>
      totalPages (forum_locals fuse' req' fetched') = Num 0
      \<and> (\<forall>p. page req' = Num p \<and> 1 \<le> p \<longrightarrow>
            validatedPage (forum_locals fuse' req' fetched') = Num p
            \<and> forum True fuse' req' fetched' = Render [] (Num p) (Num 0))
      \<and> (page req' = NaN \<or> js_lt (page req') (Num 1) \<longrightarrow>
            validatedPage (forum_locals fuse' req' fetched') = Num 1
            \<and> forum True fuse' req' fetched' = Redirect (redirectUrl ''/forum'' (Num 1) req'))"
    unfolding forum_locals_def forum_database
    using listing_empty_outcome [of 5 "performSearch_forum fuse'" req' fetched' "''/forum''"]
    by blast
next
  show "filteredForumPosts_dev (tags req') mockForumPosts = [] \<longrightarrow>
      (\<forall>p. page req' = Num p \<and> 1 \<le> p \<longrightarrow>
            forum False fuse' req' fetched' = Render [] (Num p) (Num 0))
      \<and> (page req' = NaN \<or> js_lt (page req') (Num 1) \<longrightarrow>
            forum False fuse' req' fetched' = Render [] (Num 1) (Num 0))"
    by (auto simp: forum_development forum_dev_empty validatePage_zero)
qed

theorem C3_empty_result_set_witness:
  "filteredItems (pastPaperPage_locals (scored_fuse (\<lambda>_. None))
       \<lparr>search = ''zzz'', page = Num 1, tags = [''FAT'']\<rparr> mockPastPapers) = []
   \<and> pastPaperPage True (scored_fuse (\<lambda>_. None))
       \<lparr>search = ''zzz'', page = Num 1, tags = [''FAT'']\<rparr> mockPastPapers = Render [] (Num 1) (Num 0)
   \<and> filteredPastPapers_dev [''ZZZ''] mockPastPapers = []
   \<and> pastPaperPage False (scored_fuse (\<lambda>_. None))
       \<lparr>search = [], page = Num 0, tags = [''ZZZ'']\<rparr> [] = Render [] (Num 1) (Num 0)
   \<and> filteredItems (forum_locals (scored_fuse (\<lambda>_. None))
       \<lparr>search = [], page = NaN, tags = []\<rparr> []) = []
   \<and> forum True (scored_fuse (\<lambda>_. None)) \<lparr>search = [], page = NaN, tags = []\<rparr> []
       = Redirect (redirectUrl ''/forum'' (Num 1) \<lparr>search = [], page = NaN, tags = []\<rparr>)
   \<and> filteredForumPosts_dev [''ZZZ''] mockForumPosts = []
   \<and> forum False (scored_fuse (\<lambda>_. None))
       \<lparr>search = [], page = Num 3, tags = [''ZZZ'']\<rparr> [] = Render [] (Num 3) (Num 0)"
proof -
  let ?f = "scored_fuse (\<lambda>_. None) :: pastPaper fuse"
  let ?g = "scored_fuse (\<lambda>_. None) :: forumPost fuse"
  let ?r = "\<lparr>search = ''zzz'', page = Num 1, tags = [''FAT'']\<rparr>"
  let ?r' = "\<lparr>search = [], page = NaN, tags = []\<rparr>"
  let ?d = "\<lparr>search = [], page = Num 0, tags = [''ZZZ'']\<rparr>"
  let ?d' = "\<lparr>search = [], page = Num 3, tags = [''ZZZ'']\<rparr>"
  have e1: "filteredItems (pastPaperPage_locals ?f ?r mockPastPapers) = []"
    by code_simp
  have e2: "filteredItems (forum_locals ?g ?r' []) = []"
    by code_simp
  have e3: "filteredPastPapers_dev [''ZZZ''] mockPastPapers = []"
    by code_simp
  have e4: "filteredForumPosts_dev [''ZZZ''] mockForumPosts = []"
    by code_simp
  from C3_empty_result_set [of ?f ?r mockPastPapers ?g ?r' "[]"] e1 e2
  have db: "pastPaperPage True ?f ?r mockPastPapers = Render [] (Num 1) (Num 0)
      \<and> forum True ?g ?r' [] = Redirect (redirectUrl ''/forum'' (Num 1) ?r')"
    by simp
  from C3_empty_result_set [of ?f ?d "[]" ?g ?d' "[]"] e3 e4
  have dev: "pastPaperPage False ?f ?d [] = Render [] (Num 1) (Num 0)
      \<and> forum False ?g ?d' [] = Render [] (Num 3) (Num 0)"
    by simp
  from e1 e2 e3 e4 db dev show ?thesis by simp
qed

text \<open>
  Claim C4, as stated: whenever the validated page differs from the requested page, the
  page emits a redirect that carries the validated page number with the search query and
  the tags, the redirect takes precedence over rendering, and no page of items is computed
  or returned. Two parts fail. In the database branch the slice
  \<^verbatim>\<open>paginatedPastPapers\<close> is assigned before the redirect is decided: with ten papers and
  page 99 the outcome is the redirect to page 2, and the slice of page 2 (the tenth paper)
  has been computed by then. In the development branch there is no redirect at all: with
  the fifteen mock papers page 99 is validated to 2 and the page is rendered.
\<close>

theorem C4_redirect_counterexample:
  "pastPaperPage True (scored_fuse (\<lambda>_. None)) \<lparr>search = [], page = Num 99, tags = []\<rparr>
       (take 10 mockPastPapers) = Redirect ''/past_papers?page=2''
   \<and> map paper_id (paginatedItems (pastPaperPage_locals (scored_fuse (\<lambda>_. None))
       \<lparr>search = [], page = Num 99, tags = []\<rparr> (take 10 mockPastPapers))) = [''10'']
   \<and> pastPaperPage False (scored_fuse (\<lambda>_. None)) \<lparr>search = [], page = Num 99, tags = []\<rparr> []
       = Render [] (Num 2) (Num 2)
   \<and> forum False (scored_fuse (\<lambda>_. None)) \<lparr>search = [], page = Num 99, tags = []\<rparr> []
       = Render mockForumPosts (Num 1) (Num 1)"
  by code_simp

text \<open>
  Claim C4, amended: in the database branch (\<^verbatim>\<open>DATABASE_URL\<close> set), whenever the validated
  page differs from the requested page, the outcome of the page is a redirect to the base
  path with \<^verbatim>\<open>?page=\<close> and the validated page number, followed by \<^verbatim>\<open>&search=\<close> and the
  URI-encoded search query when the query is not empty, and by \<^verbatim>\<open>&tags=\<close> and the
  URI-encoded comma-joined tags when there are tags; the outcome is the redirect and not a
  rendering, and no page of items is returned. In the development branch
  (\<^verbatim>\<open>DATABASE_URL\<close> not set) no redirect is ever emitted: the page is rendered with the
  validated page number, also when that differs from the requested page. This holds for
  the past-papers page and for the forum page.
\<close>

theorem C4_redirect:
  "(validatedPage (pastPaperPage_locals fuse req fetched) \<noteq> page req \<longrightarrow>
      pastPaperPage True fuse req fetched =
        Redirect (''/past_papers?page=''
          @ numberToString (validatedPage (pastPaperPage_locals fuse req fetched))
          @ (if search req = [] then [] else ''&search='' @ encodeURIComponent (search req))
          @ (if tags req = [] then [] else ''&tags='' @ encodeURIComponent (join '','' (tags req))))
      \<and> isRedirect (pastPaperPage True fuse req fetched)
      \<and> renderedItems (pastPaperPage True fuse req fetched) = [])
   \<and> \<not> isRedirect (pastPaperPage False fuse req fetched)
   \<and> (\<exists>items pages. pastPaperPage False fuse req fetched
          = Render items (validatePage (page req) pages) pages)
   \<and> (validatedPage (forum_locals fuse' req' fetched') \<noteq> page req' \<longrightarrow>
      forum True fuse' req' fetched' =
        Redirect (''/forum?page=''
          @ numberToString (validatedPage (forum_locals fuse' req' fetched'))
          @ (if search req' = [] then [] else ''&search='' @ encodeURIComponent (search req'))
          @ (if tags req' = [] then [] else ''&tags='' @ encodeURIComponent (join '','' (tags req'))))
      \<and> isRedirect (forum True fuse' req' fetched')
      \<and> renderedItems (forum True fuse' req' fetched') = [])
   \<and> \<not> isRedirect (forum False fuse' req' fetched')
   \<and> (\<exists>items pages. forum False fuse' req' fetched'
          = Render items (validatePage (page req') pages) pages)"
proof -
  have papers: "listing_page ''/past_papers'' 9 (performSearch_papers fuse) req fetched =
      Redirect (redirectUrl ''/past_papers''
        (validatedPage (listing_locals 9 (performSearch_papers fuse) req fetched)) req)"
    if "validatedPage (listing_locals 9 (performSearch_papers fuse) req fetched) \<noteq> page req"
    using that by (rule listing_page_redirect)
  have posts: "listing_page ''/forum'' 5 (performSearch_forum fuse') req' fetched' =
      Redirect (redirectUrl ''/forum''
        (validatedPage (listing_locals 5 (performSearch_forum fuse') req' fetched')) req')"
    if "validatedPage (listing_locals 5 (performSearch_forum fuse') req' fetched') \<noteq> page req'"
    using that by (rule listing_page_redirect)
  obtain items pages where dev1: "pastPaperPage_dev req = Render items (validatePage (page req) pages) pages"
    using pastPaperPage_dev_render by blast
  obtain items' pages' where dev2: "forum_dev req' = Render items' (validatePage (page req') pages') pages'"
    using forum_dev_render by blast
  have d1: "\<not> isRedirect (pastPaperPage False fuse req fetched)"
    by (simp add: pastPaperPage_development dev1)
  have d2: "\<not> isRedirect (forum False fuse' req' fetched')"
    by (simp add: forum_development dev2)
  have d3: "\<exists>items pages. pastPaperPage False fuse req fetched
      = Render items (validatePage (page req) pages) pages"
    using dev1 by (auto simp: pastPaperPage_development)
  have d4: "\<exists>items pages. forum False fuse' req' fetched'
      = Render items (validatePage (page req') pages) pages"
    using dev2 by (auto simp: forum_development)
  have db1: "validatedPage (pastPaperPage_locals fuse req fetched) \<noteq> page req \<longrightarrow>
      pastPaperPage True fuse req fetched =
        Redirect (''/past_papers?page=''
          @ numberToString (validatedPage (pastPaperPage_locals fuse req fetched))
          @ (if search req = [] then [] else ''&search='' @ encodeURIComponent (search req))
          @ (if tags req = [] then [] else ''&tags='' @ encodeURIComponent (join '','' (tags req))))
      \<and> isRedirect (pastPaperPage True fuse req fetched)
      \<and> renderedItems (pastPaperPage True fuse req fetched) = []"
    unfolding pastPaperPage_locals_def pastPaperPage_database
    using papers by (simp add: redirectUrl_unfold)
  have db2: "validatedPage (forum_locals fuse' req' fetched') \<noteq> page req' \<longrightarrow>
      forum True fuse' req' fetched' =
        Redirect (''/forum?page=''
          @ numberToString (validatedPage (forum_locals fuse' req' fetched'))
          @ (if search req' = [] then [] else ''&search='' @ encodeURIComponent (search req'))
          @ (if tags req' = [] then [] else ''&tags='' @ encodeURIComponent (join '','' (tags req'))))
      \<and> isRedirect (forum True fuse' req' fetched')
      \<and> renderedItems (forum True fuse' req' fetched') = []"
    unfolding forum_locals_def forum_database
    using posts by (simp add: redirectUrl_unfold)
  from db1 d1 d3 db2 d2 d4 show ?thesis by (intro conjI)
qed

theorem C4_redirect_witness:
  "validatedPage (pastPaperPage_locals (scored_fuse (\<lambda>_. Some (Num 0.3)))
       \<lparr>search = ''x y'', page = Num 99, tags = [''CAT 1'', ''FAT'']\<rparr> (take 10 mockPastPapers))
     \<noteq> Num 99
   \<and> pastPaperPage True (scored_fuse (\<lambda>_. Some (Num 0.3)))
       \<lparr>search = ''x y'', page = Num 99, tags = [''CAT 1'', ''FAT'']\<rparr> (take 10 mockPastPapers)
     = Redirect ''/past_papers?page=2&search=x%20y&tags=CAT%201%2CFAT''
   \<and> \<not> isRedirect (pastPaperPage False (scored_fuse (\<lambda>_. Some (Num 0.3)))
       \<lparr>search = ''x y'', page = Num 99, tags = [''CAT 1'', ''FAT'']\<rparr> (take 10 mockPastPapers))
   \<and> validatedPage (forum_locals (scored_fuse (\<lambda>_. None))
       \<lparr>search = [], page = NaN, tags = []\<rparr> mockForumPosts) \<noteq> NaN
   \<and> forum True (scored_fuse (\<lambda>_. None)) \<lparr>search = [], page = NaN, tags = []\<rparr> mockForumPosts
     = Redirect ''/forum?page=1''
   \<and> \<not> isRedirect (forum False (scored_fuse (\<lambda>_. None))
       \<lparr>search = [], page = NaN, tags = []\<rparr> mockForumPosts)"
proof -
  let ?f = "scored_fuse (\<lambda>_. Some (Num 0.3)) :: pastPaper fuse"
  let ?g = "scored_fuse (\<lambda>_. None) :: forumPost fuse"
  let ?r = "\<lparr>search = ''x y'', page = Num 99, tags = [''CAT 1'', ''FAT'']\<rparr>"
  let ?r' = "\<lparr>search = [], page = NaN, tags = []\<rparr>"
  have v1: "validatedPage (pastPaperPage_locals ?f ?r (take 10 mockPastPapers)) = Num 2"
    by code_simp
  have v2: "validatedPage (forum_locals ?g ?r' mockForumPosts) = Num 1"
    by code_simp
  have u1: "''/past_papers?page='' @ numberToString (Num 2) @ ''&search='' @ encodeURIComponent ''x y''
      @ ''&tags='' @ encodeURIComponent (join '','' [''CAT 1'', ''FAT''])
      = ''/past_papers?page=2&search=x%20y&tags=CAT%201%2CFAT''"
    by code_simp
  have u2: "''/forum?page='' @ numberToString (Num 1) = ''/forum?page=1''"
    by code_simp
  note inst = C4_redirect [of ?f ?r "take 10 mockPastPapers" ?g ?r' mockForumPosts]
  from inst v1 u1
  have a: "pastPaperPage True ?f ?r (take 10 mockPastPapers)
      = Redirect ''/past_papers?page=2&search=x%20y&tags=CAT%201%2CFAT''"
    by simp
  from inst v2 u2
  have b: "forum True ?g ?r' mockForumPosts = Redirect ''/forum?page=1''"
    by simp
  from inst have c: "\<not> isRedirect (pastPaperPage False ?f ?r (take 10 mockPastPapers))"
    by blast
  from inst have d: "\<not> isRedirect (forum False ?g ?r' mockForumPosts)"
    by blast
  from v1 a c v2 b d show ?thesis by simp
qed

section \<open>Properties of the fuzzy search\<close>

lemma score_or_1_below:
  "t \<le> 1 \<Longrightarrow> score_or_1 sc < t \<longleftrightarrow> (\<exists>s. sc = Some (Num s) \<and> s \<noteq> 0 \<and> s < t)"
  by (cases sc rule: score_or_1.cases) auto

lemma accepted_papers_iff:
  "r \<in> set (acceptedResults_papers fuse q ds) \<longleftrightarrow>
     r \<in> set (searchResults_papers fuse q ds) \<and> (\<exists>s. score r = Some (Num s) \<and> s \<noteq> 0 \<and> s < 0.6)"
proof -
  have "score_or_1 (score r) < 0.6 \<longleftrightarrow> (\<exists>s. score r = Some (Num s) \<and> s \<noteq> 0 \<and> s < 0.6)"
    by (rule score_or_1_below) simp
  then show ?thesis
    by (simp add: acceptedResults_papers_def SCORE_THRESHOLD_papers_def)
qed

lemma accepted_forum_iff:
  "r \<in> set (acceptedResults_forum fuse q ds) \<longleftrightarrow>
     r \<in> set (searchResults_forum fuse q ds) \<and> (\<exists>s. score r = Some (Num s) \<and> s \<noteq> 0 \<and> s < 0.8)"
proof -
  have "score_or_1 (score r) < 0.8 \<longleftrightarrow> (\<exists>s. score r = Some (Num s) \<and> s \<noteq> 0 \<and> s < 0.8)"
    by (rule score_or_1_below) simp
  then show ?thesis
    by (simp add: acceptedResults_forum_def SCORE_THRESHOLD_forum_def)
qed

lemma item_not_in_map:
  assumes "distinct (map f xs)" and "r \<in> set xs" and "set ys \<subseteq> set xs" and "r \<notin> set ys"
  shows "f r \<notin> set (map f ys)"
proof
  assume "f r \<in> set (map f ys)"
  then obtain r' where r': "r' \<in> set ys" "f r' = f r" by auto
  with assms(3) have "r' \<in> set xs" by blast
  with assms(1,2) r'(2) have "r' = r" by (meson distinct_map inj_onD)
  with r'(1) assms(4) show False by simp
qed

text \<open>
  Claim C5: every item that the fuzzy-search stage emits comes from a search result whose
  score is strictly below the score threshold of its listing, 0.6 for the past papers
  (title and tag names) and 0.8 for the forum (six fields); a result whose score is not
  strictly below the threshold, or that has no numeric score, is not among the accepted
  results, so it is left out and not emitted with a substitute score.
\<close>

theorem C5_score_below_threshold:
  "(\<forall>x \<in> set (performSearch_papers fuse q ds).
        \<exists>r \<in> set (searchResults_papers fuse q ds).
          item r = x \<and> r \<in> set (acceptedResults_papers fuse q ds)
          \<and> (\<exists>s. score r = Some (Num s) \<and> s < 0.6))
   \<and> (\<forall>r \<in> set (searchResults_papers fuse q ds).
        \<not> (\<exists>s. score r = Some (Num s) \<and> s < 0.6) \<longrightarrow> r \<notin> set (acceptedResults_papers fuse q ds))
   \<and> performSearch_papers fuse q ds = map item (acceptedResults_papers fuse q ds)
   \<and> (\<forall>x \<in> set (performSearch_forum fuse' q' ds').
        \<exists>r \<in> set (searchResults_forum fuse' q' ds').
          item r = x \<and> r \<in> set (acceptedResults_forum fuse' q' ds')
          \<and> (\<exists>s. score r = Some (Num s) \<and> s < 0.8))
   \<and> (\<forall>r \<in> set (searchResults_forum fuse' q' ds').
        \<not> (\<exists>s. score r = Some (Num s) \<and> s < 0.8) \<longrightarrow> r \<notin> set (acceptedResults_forum fuse' q' ds'))
   \<and> performSearch_forum fuse' q' ds' = map item (acceptedResults_forum fuse' q' ds')"
proof (intro conjI ballI impI)
  fix x assume "x \<in> set (performSearch_papers fuse q ds)"
  then obtain r where "r \<in> set (acceptedResults_papers fuse q ds)" "item r = x"
    by (auto simp: performSearch_papers_def)
  then show "\<exists>r \<in> set (searchResults_papers fuse q ds).
      item r = x \<and> r \<in> set (acceptedResults_papers fuse q ds) \<and> (\<exists>s. score r = Some (Num s) \<and> s < 0.6)"
    using accepted_papers_iff [of r fuse q ds] by blast
next
  fix r assume "r \<in> set (searchResults_papers fuse q ds)"
    and "\<not> (\<exists>s. score r = Some (Num s) \<and> s < 0.6)"
  then show "r \<notin> set (acceptedResults_papers fuse q ds)"
    using accepted_papers_iff [of r fuse q ds] by blast
next
  show "performSearch_papers fuse q ds = map item (acceptedResults_papers fuse q ds)"
    by (simp add: performSearch_papers_def)
next
  fix x assume "x \<in> set (performSearch_forum fuse' q' ds')"
  then obtain r where "r \<in> set (acceptedResults_forum fuse' q' ds')" "item r = x"
    by (auto simp: performSearch_forum_def)
  then show "\<exists>r \<in> set (searchResults_forum fuse' q' ds').
      item r = x \<and> r \<in> set (acceptedResults_forum fuse' q' ds') \<and> (\<exists>s. score r = Some (Num s) \<and> s < 0.8)"
    using accepted_forum_iff [of r fuse' q' ds'] by blast
next
  fix r assume "r \<in> set (searchResults_forum fuse' q' ds')"
    and "\<not> (\<exists>s. score r = Some (Num s) \<and> s < 0.8)"
  then show "r \<notin> set (acceptedResults_forum fuse' q' ds')"
    using accepted_forum_iff [of r fuse' q' ds'] by blast
next
  show "performSearch_forum fuse' q' ds' = map item (acceptedResults_forum fuse' q' ds')"
    by (simp add: performSearch_forum_def)
qed

lemma sample_results_papers:
  "searchResults_papers (scored_fuse sampleScore_papers) ''Data'' (take 4 mockPastPapers) =
     [\<lparr>item = mockPastPapers ! 0, refIndex = 0, score = Some (Num 0.2)\<rparr>,
      \<lparr>item = mockPastPapers ! 1, refIndex = 1, score = Some (Num 0.6)\<rparr>,
      \<lparr>item = mockPastPapers ! 2, refIndex = 2, score = Some (Num 0)\<rparr>,
      \<lparr>item = mockPastPapers ! 3, refIndex = 3, score = None\<rparr>]"
  by code_simp

lemma sample_results_forum:
  "searchResults_forum (scored_fuse sampleScore_forum) ''Sample'' mockForumPosts =
     [\<lparr>item = mockForumPosts ! 0, refIndex = 0, score = Some (Num 0.7)\<rparr>,
      \<lparr>item = mockForumPosts ! 1, refIndex = 1, score = Some (Num 0)\<rparr>]"
  by code_simp

theorem C5_score_below_threshold_witness:
  "mockPastPapers ! 0
     \<in> set (performSearch_papers (scored_fuse sampleScore_papers) ''Data'' (take 4 mockPastPapers))
   \<and> (\<exists>r \<in> set (searchResults_papers (scored_fuse sampleScore_papers) ''Data'' (take 4 mockPastPapers)).
         item r = mockPastPapers ! 0 \<and> (\<exists>s. score r = Some (Num s) \<and> s < 0.6))
   \<and> \<lparr>item = mockPastPapers ! 1, refIndex = 1, score = Some (Num 0.6)\<rparr>
       \<in> set (searchResults_papers (scored_fuse sampleScore_papers) ''Data'' (take 4 mockPastPapers))
   \<and> \<lparr>item = mockPastPapers ! 1, refIndex = 1, score = Some (Num 0.6)\<rparr>
       \<notin> set (acceptedResults_papers (scored_fuse sampleScore_papers) ''Data'' (take 4 mockPastPapers))
   \<and> mockForumPosts ! 0
     \<in> set (performSearch_forum (scored_fuse sampleScore_forum) ''Sample'' mockForumPosts)
   \<and> (\<exists>r \<in> set (searchResults_forum (scored_fuse sampleScore_forum) ''Sample'' mockForumPosts).
         item r = mockForumPosts ! 0 \<and> (\<exists>s. score r = Some (Num s) \<and> s < 0.8))"
proof -
  let ?f = "scored_fuse sampleScore_papers"
  let ?g = "scored_fuse sampleScore_forum"
  let ?r1 = "\<lparr>item = mockPastPapers ! 1, refIndex = 1, score = Some (Num (0.6::real))\<rparr>"
  have a: "acceptedResults_papers ?f ''Data'' (take 4 mockPastPapers)
      = [\<lparr>item = mockPastPapers ! 0, refIndex = 0, score = Some (Num 0.2)\<rparr>]"
    by (simp add: acceptedResults_papers_def sample_results_papers SCORE_THRESHOLD_papers_def)
  have b: "acceptedResults_forum ?g ''Sample'' mockForumPosts
      = [\<lparr>item = mockForumPosts ! 0, refIndex = 0, score = Some (Num 0.7)\<rparr>]"
    by (simp add: acceptedResults_forum_def sample_results_forum SCORE_THRESHOLD_forum_def)
  have m1: "mockPastPapers ! 0 \<in> set (performSearch_papers ?f ''Data'' (take 4 mockPastPapers))"
    by (simp add: performSearch_papers_def a)
  have m2: "mockForumPosts ! 0 \<in> set (performSearch_forum ?g ''Sample'' mockForumPosts)"
    by (simp add: performSearch_forum_def b)
  have m3: "?r1 \<in> set (searchResults_papers ?f ''Data'' (take 4 mockPastPapers))"
    by (simp add: sample_results_papers)
  have m4: "\<not> (\<exists>s. score ?r1 = Some (Num s) \<and> s < 0.6)"
    by simp
  note inst = C5_score_below_threshold
    [of ?f "''Data''" "take 4 mockPastPapers" ?g "''Sample''" mockForumPosts]
  from inst m1 have c1: "\<exists>r \<in> set (searchResults_papers ?f ''Data'' (take 4 mockPastPapers)).
      item r = mockPastPapers ! 0 \<and> (\<exists>s. score r = Some (Num s) \<and> s < 0.6)"
    by blast
  from inst m3 m4 have c2: "?r1 \<notin> set (acceptedResults_papers ?f ''Data'' (take 4 mockPastPapers))"
    by blast
  from inst m2 have c3: "\<exists>r \<in> set (searchResults_forum ?g ''Sample'' mockForumPosts).
      item r = mockForumPosts ! 0 \<and> (\<exists>s. score r = Some (Num s) \<and> s < 0.8)"
    by blast
  from m1 c1 m3 c2 m2 c3 show ?thesis by (intro conjI)
qed

lemma Number_EPSILON_powr: "Number_EPSILON = 2 powr (- 52)"
proof -
  have "(2::real) powr (- 52) = 1 / 2 powr 52" by (simp add: powr_minus_divide)
  also have "(2::real) powr 52 = 2 ^ 52" by (simp add: powr_realpow [symmetric])
  finally show ?thesis by (simp add: Number_EPSILON_def)
qed

lemma Number_EPSILON_pos: "0 < Number_EPSILON"
  by (simp add: Number_EPSILON_def)

lemma perfect_tag_match_score:
  "computeScore [\<lparr>match_weight = 2 / 3, match_norm = 1, match_score = 0\<rparr>]
     = Number_EPSILON powr (2 / 3)"
  by (simp add: computeScore_def Math_pow_def)

lemma perfect_tag_match_bounds:
  "0 < Number_EPSILON powr (2 / 3)" "Number_EPSILON powr (2 / 3) < 1 / 2"
proof -
  show "0 < Number_EPSILON powr (2 / 3)"
    using Number_EPSILON_pos by simp
  have "Number_EPSILON powr (2 / 3) = 2 powr (- 52 * (2 / 3))"
    by (simp only: Number_EPSILON_powr powr_powr)
  also have "\<dots> < 2 powr (- 1)"
    by (subst powr_less_cancel_iff) simp_all
  also have "(2::real) powr (- 1) = 1 / 2"
    by (simp add: powr_minus_divide)
  finally show "Number_EPSILON powr (2 / 3) < 1 / 2" .
qed

text \<open>
  Claim C6, as stated: a search result with score exactly 0 is a perfect match, its item
  is left out because \<^verbatim>\<open>fuseResult.score || 1\<close> turns the 0 into 1, and so perfect matches
  never pass the filter. The identification fails: the library does not report 0 for a
  perfect match. Searching the past papers for \<^verbatim>\<open>SE\<close> matches paper 6 on its tag \<^verbatim>\<open>SE\<close>
  only (the whole field equals the query: weight 2 of 3, norm 1, match score 0); Fuse.js
  replaces that 0 by \<^verbatim>\<open>Number.EPSILON\<close> and reports \<open>Number.EPSILON powr (2 / 3)\<close>, about
  \<open>3.7e-11\<close>, which is not 0 and is below 0.6. With that score the paper passes the
  filter.
\<close>

theorem C6_zero_score_excluded_counterexample:
  "computeScore [\<lparr>match_weight = 2 / 3, match_norm = 1, match_score = 0\<rparr>] \<noteq> 0
   \<and> computeScore [\<lparr>match_weight = 2 / 3, match_norm = 1, match_score = 0\<rparr>] < 0.6
   \<and> performSearch_papers
        (scored_fuse (\<lambda>_. Some (Num
           (computeScore [\<lparr>match_weight = 2 / 3, match_norm = 1, match_score = 0\<rparr>]))))
        ''SE'' [mockPastPapers ! 5]
       = [mockPastPapers ! 5]"
proof -
  let ?s = "computeScore [\<lparr>match_weight = 2 / 3, match_norm = 1, match_score = 0\<rparr>]"
  have pos: "?s \<noteq> 0" and small: "?s < 0.6"
    using perfect_tag_match_bounds by (simp_all add: perfect_tag_match_score)
  have "searchResults_papers (scored_fuse (\<lambda>_. Some (Num ?s))) ''SE'' [mockPastPapers ! 5]
      = [\<lparr>item = mockPastPapers ! 5, refIndex = 0, score = Some (Num ?s)\<rparr>]"
    by (simp add: searchResults_papers_def scored_fuse_def)
  with pos small
  have "performSearch_papers (scored_fuse (\<lambda>_. Some (Num ?s))) ''SE'' [mockPastPapers ! 5]
      = [mockPastPapers ! 5]"
    by (simp add: performSearch_papers_def acceptedResults_papers_def SCORE_THRESHOLD_papers_def)
  with pos small show ?thesis by (intro conjI)
qed

text \<open>
  Claim C6, amended: a search result whose score, as the search library reports it, is
  exactly 0 is replaced by 1 in \<^verbatim>\<open>fuseResult.score || 1\<close> and so fails the strict test
  against the threshold: it is not among the accepted results of either listing, and,
  when the library reports no two results for the same item, its item is not in the
  output of \<^verbatim>\<open>performSearch\<close>. Nothing is said about perfect matches: which score a
  perfect match gets is decided by the library.
\<close>

theorem C6_zero_score_excluded:
  "score_or_1 (Some (Num 0)) = 1
   \<and> (\<forall>r \<in> set (searchResults_papers fuse q ds). score r = Some (Num 0) \<longrightarrow>
        r \<notin> set (acceptedResults_papers fuse q ds)
        \<and> (distinct (map item (searchResults_papers fuse q ds)) \<longrightarrow>
             item r \<notin> set (performSearch_papers fuse q ds)))
   \<and> (\<forall>r \<in> set (searchResults_forum fuse' q' ds'). score r = Some (Num 0) \<longrightarrow>
        r \<notin> set (acceptedResults_forum fuse' q' ds')
        \<and> (distinct (map item (searchResults_forum fuse' q' ds')) \<longrightarrow>
             item r \<notin> set (performSearch_forum fuse' q' ds')))"
proof (intro conjI ballI impI)
  show "score_or_1 (Some (Num 0)) = 1" by simp
next
  fix r assume r: "r \<in> set (searchResults_papers fuse q ds)" "score r = Some (Num 0)"
  then show out: "r \<notin> set (acceptedResults_papers fuse q ds)"
    by (simp add: accepted_papers_iff)
  assume d: "distinct (map item (searchResults_papers fuse q ds))"
  have "set (acceptedResults_papers fuse q ds) \<subseteq> set (searchResults_papers fuse q ds)"
    by (auto simp: accepted_papers_iff)
  from item_not_in_map [OF d r(1) this out]
  show "item r \<notin> set (performSearch_papers fuse q ds)"
    by (simp add: performSearch_papers_def)
next
  fix r assume r: "r \<in> set (searchResults_forum fuse' q' ds')" "score r = Some (Num 0)"
  then show out: "r \<notin> set (acceptedResults_forum fuse' q' ds')"
    by (simp add: accepted_forum_iff)
  assume d: "distinct (map item (searchResults_forum fuse' q' ds'))"
  have "set (acceptedResults_forum fuse' q' ds') \<subseteq> set (searchResults_forum fuse' q' ds')"
    by (auto simp: accepted_forum_iff)
  from item_not_in_map [OF d r(1) this out]
  show "item r \<notin> set (performSearch_forum fuse' q' ds')"
    by (simp add: performSearch_forum_def)
qed

text \<open>
  The premise asks for a library that reports exactly 0; the stand-in used here reports 0
  for every record.
\<close>

theorem C6_zero_score_excluded_witness:
  "\<lparr>item = mockPastPapers ! 5, refIndex = 0, score = Some (Num 0)\<rparr>
       \<in> set (searchResults_papers (scored_fuse (\<lambda>_. Some (Num 0))) ''SE'' [mockPastPapers ! 5])
   \<and> distinct (map item (searchResults_papers (scored_fuse (\<lambda>_. Some (Num 0))) ''SE'' [mockPastPapers ! 5]))
   \<and> mockPastPapers ! 5
       \<notin> set (performSearch_papers (scored_fuse (\<lambda>_. Some (Num 0))) ''SE'' [mockPastPapers ! 5])
   \<and> \<lparr>item = mockForumPosts ! 0, refIndex = 0, score = Some (Num 0)\<rparr>
       \<in> set (searchResults_forum (scored_fuse (\<lambda>_. Some (Num 0))) ''A1'' [mockForumPosts ! 0])
   \<and> distinct (map item (searchResults_forum (scored_fuse (\<lambda>_. Some (Num 0))) ''A1'' [mockForumPosts ! 0]))
   \<and> mockForumPosts ! 0
       \<notin> set (performSearch_forum (scored_fuse (\<lambda>_. Some (Num 0))) ''A1'' [mockForumPosts ! 0])"
proof -
  let ?f = "scored_fuse (\<lambda>_. Some (Num 0)) :: pastPaper fuse"
  let ?g = "scored_fuse (\<lambda>_. Some (Num 0)) :: forumPost fuse"
  let ?r = "\<lparr>item = mockPastPapers ! 5, refIndex = 0, score = Some (Num (0::real))\<rparr>"
  let ?r' = "\<lparr>item = mockForumPosts ! 0, refIndex = 0, score = Some (Num (0::real))\<rparr>"
  have s1: "searchResults_papers ?f ''SE'' [mockPastPapers ! 5] = [?r]"
    by (simp add: searchResults_papers_def scored_fuse_def)
  have s2: "searchResults_forum ?g ''A1'' [mockForumPosts ! 0] = [?r']"
    by (simp add: searchResults_forum_def scored_fuse_def)
  have m1: "?r \<in> set (searchResults_papers ?f ''SE'' [mockPastPapers ! 5])"
    by (simp add: s1)
  have d1: "distinct (map item (searchResults_papers ?f ''SE'' [mockPastPapers ! 5]))"
    by (simp add: s1)
  have m2: "?r' \<in> set (searchResults_forum ?g ''A1'' [mockForumPosts ! 0])"
    by (simp add: s2)
  have d2: "distinct (map item (searchResults_forum ?g ''A1'' [mockForumPosts ! 0]))"
    by (simp add: s2)
  note inst = C6_zero_score_excluded
    [of ?f "''SE''" "[mockPastPapers ! 5]" ?g "''A1''" "[mockForumPosts ! 0]"]
  from inst m1 d1
  have c1: "item ?r \<notin> set (performSearch_papers ?f ''SE'' [mockPastPapers ! 5])"
    by fastforce
  from inst m2 d2
  have c2: "item ?r' \<notin> set (performSearch_forum ?g ''A1'' [mockForumPosts ! 0])"
    by fastforce
  from m1 d1 c1 m2 d2 c2 show ?thesis by simp
qed

section \<open>Properties of pagination\<close>









section \<open>Properties of the tag filter\<close>

lemma matchesTags_iff:
  "ts \<noteq> [] \<Longrightarrow> matchesTags ts itemTags \<longleftrightarrow> set (map name itemTags) \<inter> set ts \<noteq> {}"
  by (auto simp: matchesTags_def list_ex_iff)

lemma matchesTags_empty: "matchesTags [] itemTags"
  by (simp add: matchesTags_def)

lemma count_list_filter:
  "count_list (filter P xs) x = (if P x then count_list xs x else 0)"
  by (induction xs) auto

text \<open>
  Claim C8: for every list of items and every non-empty list of requested tags, the tag
  filter keeps an item exactly when the set of its tag names meets the requested tags
  (one common tag is enough); the kept items are a subsequence of the input, each kept as
  often as it occurs in the input (once, when the input has no repetitions); and filtering
  by one tag that is on exactly \<open>k\<close> positions of the input returns those \<open>k\<close> items in
  their original order. This holds for the past papers and for the forum posts.
\<close>

theorem C8_tag_filter_or:
  assumes "ts \<noteq> []"
  shows "filteredPastPapers_dev ts papers
        = filter (\<lambda>paper. set (map name (paper_tags paper)) \<inter> set ts \<noteq> {}) papers
    \<and> subseq (filteredPastPapers_dev ts papers) papers
    \<and> (\<forall>x. count_list (filteredPastPapers_dev ts papers) x
          = (if set (map name (paper_tags x)) \<inter> set ts \<noteq> {} then count_list papers x else 0))
    \<and> (distinct papers \<longrightarrow> distinct (filteredPastPapers_dev ts papers))
    \<and> (\<forall>t k. card {i. i < length papers \<and> t \<in> set (map name (paper_tags (papers ! i)))} = k \<longrightarrow>
          length (filteredPastPapers_dev [t] papers) = k
          \<and> filteredPastPapers_dev [t] papers
              = filter (\<lambda>paper. t \<in> set (map name (paper_tags paper))) papers)
    \<and> filteredForumPosts_dev ts posts
        = filter (\<lambda>post. set (map name (post_tags post)) \<inter> set ts \<noteq> {}) posts
    \<and> subseq (filteredForumPosts_dev ts posts) posts
    \<and> (\<forall>x. count_list (filteredForumPosts_dev ts posts) x
          = (if set (map name (post_tags x)) \<inter> set ts \<noteq> {} then count_list posts x else 0))
    \<and> (distinct posts \<longrightarrow> distinct (filteredForumPosts_dev ts posts))
    \<and> (\<forall>t k. card {i. i < length posts \<and> t \<in> set (map name (post_tags (posts ! i)))} = k \<longrightarrow>
          length (filteredForumPosts_dev [t] posts) = k
          \<and> filteredForumPosts_dev [t] posts
              = filter (\<lambda>post. t \<in> set (map name (post_tags post))) posts)"
proof -
  have p1: "filteredPastPapers_dev ts papers
      = filter (\<lambda>paper. set (map name (paper_tags paper)) \<inter> set ts \<noteq> {}) papers"
    using assms by (simp add: filteredPastPapers_dev_def matchesTags_iff)
  have p2: "subseq (filteredPastPapers_dev ts papers) papers"
    by (simp add: filteredPastPapers_dev_def)
  have p3: "\<forall>x. count_list (filteredPastPapers_dev ts papers) x
      = (if set (map name (paper_tags x)) \<inter> set ts \<noteq> {} then count_list papers x else 0)"
    unfolding p1 by (simp only: count_list_filter) simp
  have p4: "distinct papers \<longrightarrow> distinct (filteredPastPapers_dev ts papers)"
    by (simp add: filteredPastPapers_dev_def)
  have p5: "filteredPastPapers_dev [t] papers
      = filter (\<lambda>paper. t \<in> set (map name (paper_tags paper))) papers" for t
    by (simp add: filteredPastPapers_dev_def matchesTags_iff)
  have p6: "length (filteredPastPapers_dev [t] papers)
      = card {i. i < length papers \<and> t \<in> set (map name (paper_tags (papers ! i)))}" for t
    unfolding p5 by (rule length_filter_conv_card)
  have q1: "filteredForumPosts_dev ts posts
      = filter (\<lambda>post. set (map name (post_tags post)) \<inter> set ts \<noteq> {}) posts"
    using assms by (simp add: filteredForumPosts_dev_def matchesTags_iff)
  have q2: "subseq (filteredForumPosts_dev ts posts) posts"
    by (simp add: filteredForumPosts_dev_def)
  have q3: "\<forall>x. count_list (filteredForumPosts_dev ts posts) x
      = (if set (map name (post_tags x)) \<inter> set ts \<noteq> {} then count_list posts x else 0)"
    unfolding q1 by (simp only: count_list_filter) simp
  have q4: "distinct posts \<longrightarrow> distinct (filteredForumPosts_dev ts posts)"
    by (simp add: filteredForumPosts_dev_def)
  have q5: "filteredForumPosts_dev [t] posts
      = filter (\<lambda>post. t \<in> set (map name (post_tags post))) posts" for t
    by (simp add: filteredForumPosts_dev_def matchesTags_iff)
  have q6: "length (filteredForumPosts_dev [t] posts)
      = card {i. i < length posts \<and> t \<in> set (map name (post_tags (posts ! i)))}" for t
    unfolding q5 by (rule length_filter_conv_card)
  from p1 p2 p3 p4 p5 p6 q1 q2 q3 q4 q5 q6 show ?thesis
    by (intro conjI allI impI) simp_all
qed

theorem C8_tag_filter_or_witness:
  "[''CAT 1'', ''CAT 2''] \<noteq> []
   \<and> distinct mockPastPapers
   \<and> distinct (filteredPastPapers_dev [''CAT 1'', ''CAT 2''] mockPastPapers)
   \<and> subseq (filteredPastPapers_dev [''CAT 1'', ''CAT 2''] mockPastPapers) mockPastPapers
   \<and> map paper_id (filter (\<lambda>paper. set (map name (paper_tags paper)) \<inter> set [''CAT 1'', ''CAT 2''] \<noteq> {})
         mockPastPapers)
       = [''1'', ''2'', ''4'', ''5'', ''7'', ''8'', ''10'', ''11'', ''13'', ''14'']
   \<and> card {i. i < length mockPastPapers \<and> ''FAT'' \<in> set (map name (paper_tags (mockPastPapers ! i)))} = 5
   \<and> distinct mockForumPosts
   \<and> distinct (filteredForumPosts_dev [''CAT 1'', ''CAT 2''] mockForumPosts)
   \<and> card {i. i < length mockForumPosts \<and> ''FAT'' \<in> set (map name (post_tags (mockForumPosts ! i)))} = 1"
proof -
  let ?ts = "[''CAT 1'', ''CAT 2'']"
  have ne: "?ts \<noteq> []" by simp
  have d1: "distinct mockPastPapers" by code_simp
  have d2: "distinct mockForumPosts" by code_simp
  have ids: "map paper_id (filteredPastPapers_dev ?ts mockPastPapers)
      = [''1'', ''2'', ''4'', ''5'', ''7'', ''8'', ''10'', ''11'', ''13'', ''14'']"
    by code_simp
  have l1: "length (filteredPastPapers_dev [''FAT''] mockPastPapers) = 5" by code_simp
  have l2: "length (filteredForumPosts_dev [''FAT''] mockForumPosts) = 1" by code_simp
  note inst = C8_tag_filter_or [OF ne, of mockPastPapers mockForumPosts]
  from inst have e: "filteredPastPapers_dev ?ts mockPastPapers
      = filter (\<lambda>paper. set (map name (paper_tags paper)) \<inter> set ?ts \<noteq> {}) mockPastPapers"
    by blast
  from inst d1 have c1: "distinct (filteredPastPapers_dev ?ts mockPastPapers)" by blast
  from inst have c2: "subseq (filteredPastPapers_dev ?ts mockPastPapers) mockPastPapers" by blast
  from inst d2 have c3: "distinct (filteredForumPosts_dev ?ts mockForumPosts)" by blast
  from inst have "length (filteredPastPapers_dev [''FAT''] mockPastPapers)
      = card {i. i < length mockPastPapers \<and> ''FAT'' \<in> set (map name (paper_tags (mockPastPapers ! i)))}"
    by blast
  with l1 have k1: "card {i. i < length mockPastPapers
      \<and> ''FAT'' \<in> set (map name (paper_tags (mockPastPapers ! i)))} = 5" by simp
  from inst have "length (filteredForumPosts_dev [''FAT''] mockForumPosts)
      = card {i. i < length mockForumPosts \<and> ''FAT'' \<in> set (map name (post_tags (mockForumPosts ! i)))}"
    by blast
  with l2 have k2: "card {i. i < length mockForumPosts
      \<and> ''FAT'' \<in> set (map name (post_tags (mockForumPosts ! i)))} = 1" by simp
  from ids e have ids': "map paper_id (filter (\<lambda>paper. set (map name (paper_tags paper)) \<inter> set ?ts \<noteq> {})
      mockPastPapers) = [''1'', ''2'', ''4'', ''5'', ''7'', ''8'', ''10'', ''11'', ''13'', ''14'']"
    by simp
  from ne d1 c1 c2 ids' k1 d2 c3 k2 show ?thesis by (intro conjI)
qed

text \<open>
  Claim C9: with no requested tags the tag filter returns its input unchanged, the same
  items in the same order, for the past papers and for the forum posts.
\<close>

theorem C9_tag_filter_empty:
  "filteredPastPapers_dev [] papers = papers \<and> filteredForumPosts_dev [] posts = posts"
  by (simp add: filteredPastPapers_dev_def filteredForumPosts_dev_def matchesTags_empty)

section \<open>Properties of the empty search\<close>

lemma listing_no_search:
  assumes "search req = []"
  shows "listing_locals ps perf req fetched = listing_locals ps (\<lambda>query dataSet. dataSet) req fetched"
    and "listing_page base ps perf req fetched = listing_page base ps (\<lambda>query dataSet. dataSet) req fetched"
    and "filteredItems (listing_locals ps perf req fetched) = fetched"
    and "totalCount (listing_locals ps perf req fetched) = length fetched"
    and "paginatedItems (listing_locals ps perf req fetched)
           = slice fetched (startIndex (listing_locals ps perf req fetched))
               (endIndex (listing_locals ps perf req fetched))"
  using assms by (simp_all add: listing_locals_def listing_page_def Let_def)

text \<open>
  Claim C10: when the search query is the empty string the fuzzy search is not run: the
  list that goes on to counting, validation and slicing is the fetched (tag-filtered) list
  itself, in its order, the outcome is the one of the same page with a search stage that
  returns its input, and it does not depend on the search library. The outcome is an
  ordinary rendering or redirect. This holds for the past papers and for the forum; the
  development branch never searches, so there the outcome does not depend on the library
  either.
\<close>

theorem C10_empty_search_skips_fuzzy:
  assumes "search req = []"
  shows "filteredItems (pastPaperPage_locals fuse req papers) = papers
    \<and> totalCount (pastPaperPage_locals fuse req papers) = length papers
    \<and> paginatedItems (pastPaperPage_locals fuse req papers)
        = slice papers (startIndex (pastPaperPage_locals fuse req papers))
            (endIndex (pastPaperPage_locals fuse req papers))
    \<and> pastPaperPage True fuse req papers
        = listing_page ''/past_papers'' 9 (\<lambda>query dataSet. dataSet) req papers
    \<and> pastPaperPage db fuse req papers = pastPaperPage db fuse2 req papers
    \<and> filteredItems (forum_locals fuse' req posts) = posts
    \<and> totalCount (forum_locals fuse' req posts) = length posts
    \<and> paginatedItems (forum_locals fuse' req posts)
        = slice posts (startIndex (forum_locals fuse' req posts))
            (endIndex (forum_locals fuse' req posts))
    \<and> forum True fuse' req posts = listing_page ''/forum'' 5 (\<lambda>query dataSet. dataSet) req posts
    \<and> forum db' fuse' req posts = forum db' fuse2' req posts"
  unfolding pastPaperPage_locals_def pastPaperPage_def forum_locals_def forum_def
  using listing_no_search(2) [OF assms, of "''/past_papers''" 9 "performSearch_papers fuse" papers]
    listing_no_search(2) [OF assms, of "''/past_papers''" 9 "performSearch_papers fuse2" papers]
    listing_no_search(2) [OF assms, of "''/forum''" 5 "performSearch_forum fuse'" posts]
    listing_no_search(2) [OF assms, of "''/forum''" 5 "performSearch_forum fuse2'" posts]
    listing_no_search(3,4,5) [OF assms, of 9 "performSearch_papers fuse" papers]
    listing_no_search(3,4,5) [OF assms, of 5 "performSearch_forum fuse'" posts]
  by simp

theorem C10_empty_search_skips_fuzzy_witness:
  "search \<lparr>search = [], page = Num 2, tags = []\<rparr> = []
   \<and> filteredItems (pastPaperPage_locals (scored_fuse (\<lambda>_. None))
        \<lparr>search = [], page = Num 2, tags = []\<rparr> mockPastPapers) = mockPastPapers
   \<and> pastPaperPage True (scored_fuse (\<lambda>_. None)) \<lparr>search = [], page = Num 2, tags = []\<rparr>
        mockPastPapers
       = Render (drop 9 mockPastPapers) (Num 2) (Num 2)
   \<and> forum True (scored_fuse (\<lambda>_. None)) \<lparr>search = [], page = Num 2, tags = []\<rparr> mockForumPosts
       = Redirect ''/forum?page=1''"
proof -
  let ?req = "\<lparr>search = [], page = Num 2, tags = []\<rparr>"
  let ?f = "scored_fuse (\<lambda>_. None) :: pastPaper fuse"
  let ?g = "scored_fuse (\<lambda>_. None) :: forumPost fuse"
  have s: "search ?req = []" by simp
  have a: "listing_page ''/past_papers'' 9 (\<lambda>query dataSet. dataSet) ?req mockPastPapers
      = Render (drop 9 mockPastPapers) (Num 2) (Num 2)"
    by code_simp
  have b: "listing_page ''/forum'' 5 (\<lambda>query dataSet. dataSet) ?req mockForumPosts
      = Redirect ''/forum?page=1''"
    by code_simp
  from C10_empty_search_skips_fuzzy [OF s, of ?f mockPastPapers True ?f ?g mockForumPosts True ?g] a b
  show ?thesis by simp
qed

end
